theory Spec2Isabelle
  imports Main
begin

section \<open>Python values\<close>

text \<open>
  The backend is one Flask module, \<^verbatim>\<open>main.py\<close>. A Python \<^verbatim>\<open>str\<close> is modelled as the list
  of its Unicode code points, so that \<^verbatim>\<open>in\<close>, \<^verbatim>\<open>+\<close> and the single-character wildcard of
  SQL count what Python and SQLite count. ASCII literals of the source are written with
  \<open>str\<close>; the Chinese literals are written as their code points.

  The values that travel through the module are those of parsed JSON, plus the \<^verbatim>\<open>None\<close>
  key and list value that \<^verbatim>\<open>csv.DictReader\<close> can put into a row. JSON numbers are
  restricted to integers. A \<^verbatim>\<open>dict\<close> is an association list in insertion order; a Python
  dictionary never holds a key twice.
\<close>

type_synonym pstr = "nat list"

definition str :: "string \<Rightarrow> pstr" where
  "str s = map of_char s"

datatype pyval =
    PNone
  | PBool bool
  | PInt int
  | PStr pstr
  | PList "pyval list"
  | PDict "(pyval \<times> pyval) list"

text \<open>The exceptions that leave the module's own expressions and its calls into \<^verbatim>\<open>sqlite3\<close>.\<close>

datatype py_error =
    AttributeError | TypeError | KeyError | IndexError
  | OverflowError | UnicodeEncodeError | DataError | OperationalError

text \<open>
  The text of an \<^verbatim>\<open>AttributeError\<close>, as in \<^verbatim>\<open>'int' object has no attribute 'get'\<close>
  (39 is the apostrophe).
\<close>

fun type_name :: "pyval \<Rightarrow> pstr" where
  "type_name PNone = str ''NoneType''"
| "type_name (PBool _) = str ''bool''"
| "type_name (PInt _) = str ''int''"
| "type_name (PStr _) = str ''str''"
| "type_name (PList _) = str ''list''"
| "type_name (PDict _) = str ''dict''"

definition no_attribute :: "pyval \<Rightarrow> pstr \<Rightarrow> pstr" where
  "no_attribute v a =
     [39] @ type_name v @ [39] @ str '' object has no attribute '' @ [39] @ a @ [39]"

text \<open>\<^verbatim>\<open>k in s\<close> on two strings: \<open>k\<close> occurs in \<open>s\<close> as a contiguous run.\<close>

fun starts_with :: "'a list \<Rightarrow> 'a list \<Rightarrow> bool" where
  "starts_with [] s = True"
| "starts_with (k # ks) [] = False"
| "starts_with (k # ks) (c # cs) = (k = c \<and> starts_with ks cs)"

fun str_in :: "'a list \<Rightarrow> 'a list \<Rightarrow> bool" where
  "str_in k [] = (k = [])"
| "str_in k (c # cs) = (starts_with k (c # cs) \<or> str_in k cs)"

text \<open>\<^verbatim>\<open>d.get(k, default)\<close>, \<^verbatim>\<open>k in d\<close> and \<^verbatim>\<open>d[k] = v\<close> on a dictionary.\<close>

definition dict_get :: "(pyval \<times> pyval) list \<Rightarrow> pyval \<Rightarrow> pyval \<Rightarrow> pyval" where
  "dict_get d k dflt = (case map_of d k of None \<Rightarrow> dflt | Some v \<Rightarrow> v)"

definition dict_has :: "(pyval \<times> pyval) list \<Rightarrow> pyval \<Rightarrow> bool" where
  "dict_has d k = (map_of d k \<noteq> None)"

fun dict_set :: "(pyval \<times> pyval) list \<Rightarrow> pyval \<Rightarrow> pyval \<Rightarrow> (pyval \<times> pyval) list" where
  "dict_set [] k v = [(k, v)]"
| "dict_set ((k', v') # d) k v = (if k' = k then (k, v) # d else (k', v') # dict_set d k v)"


definition seq_index :: "'a list \<Rightarrow> int \<Rightarrow> py_error + 'a" where
  "seq_index xs i =
     (let n = int (length xs); j = (if i < 0 then i + n else i)
      in if 0 \<le> j \<and> j < n then Inr (xs ! nat j) else Inl IndexError)"

fun getitem :: "pyval \<Rightarrow> pyval \<Rightarrow> py_error + pyval" where
  "getitem (PDict d) k = (case map_of d k of None \<Rightarrow> Inl KeyError | Some v \<Rightarrow> Inr v)"
| "getitem (PList xs) (PInt i) = seq_index xs i"
| "getitem (PStr s) (PInt i) =
     (case seq_index s i of Inl e \<Rightarrow> Inl e | Inr c \<Rightarrow> Inr (PStr [c]))"
| "getitem _ _ = Inl TypeError"

section \<open>The agent: intent, name, reply\<close>

text \<open>
  \<^verbatim>\<open>AIAgent.analyze\<close>. \<^verbatim>\<open>str.lower\<close> belongs to Python, not to this module, and is
  the parameter \<open>lower\<close>. The two keyword lists of the source are Chinese words,
  written here by their code points: U+67E5 U+8BE2 (look up), U+67E5 U+627E (find),
  U+641C U+7D22 (search), U+6709 U+54EA U+4E9B (which ones); and U+8BB0 U+5F55 (record),
  U+6DFB U+52A0 (add), U+4FDD U+5B58 (save).
\<close>

definition query_keywords :: "pstr list" where
  "query_keywords = [[26597, 35810], [26597, 25214], [25628, 32034], [26377, 21738, 20123]]"

definition store_keywords :: "pstr list" where
  "store_keywords = [[35760, 24405], [28155, 21152], [20445, 23384]]"

definition analyze :: "(pstr \<Rightarrow> pstr) \<Rightarrow> pstr \<Rightarrow> pstr" where
  "analyze lower text =
     (let text_lower = lower text
      in if list_ex (\<lambda>k. str_in k text_lower) query_keywords then str ''query''
         else if list_ex (\<lambda>k. str_in k text_lower) store_keywords then str ''store''
         else str ''query'')"











section \<open>The document store\<close>

text \<open>
  The table \<^verbatim>\<open>documents\<close>: \<^verbatim>\<open>id INTEGER PRIMARY KEY AUTOINCREMENT\<close>, two nullable
  \<^verbatim>\<open>TEXT\<close> columns, \<^verbatim>\<open>data TEXT NOT NULL\<close> and
  \<^verbatim>\<open>created_time TIMESTAMP DEFAULT CURRENT_TIMESTAMP\<close>. A row and a document returned
  by a query differ in the type of \<open>data\<close> only: stored text, or the value decoded from it
  (the column \<^verbatim>\<open>identifier\<close> is the field \<open>ident\<close>).
  \<open>created_time\<close> is the reading of the wall clock that SQLite took, in seconds; SQLite
  stores it as \<^verbatim>\<open>YYYY-MM-DD HH:MM:SS\<close>, whose order as text is the order of the readings.
  The database keeps the rows in the order of their ids and, in \<open>seq\<close>, the largest id it
  ever assigned.
\<close>

record 'd document =
  doc_id :: int
  doc_type :: "pstr option"
  ident :: "pstr option"
  data :: 'd
  created_time :: nat

record db =
  rows :: "pstr document list"
  seq :: int

text \<open>
  What lies outside the program at one insert: whether a call into \<^verbatim>\<open>sqlite3\<close> raises
  for a reason of the storage (file, lock, disk), and the clock: SQLite's
  \<^verbatim>\<open>CURRENT_TIMESTAMP\<close> and Python's \<^verbatim>\<open>datetime.now().isoformat()\<close>.
\<close>

record env =
  fault :: bool
  now :: nat
  isoformat :: pstr

text \<open>\<^verbatim>\<open>init_database\<close>: \<^verbatim>\<open>CREATE TABLE IF NOT EXISTS\<close> keeps a table that is there.\<close>

definition init_database :: "db option \<Rightarrow> db" where
  "init_database file = (case file of None \<Rightarrow> \<lparr>rows = [], seq = 0\<rparr> | Some d \<Rightarrow> d)"

text \<open>
  Binding a Python value to a parameter of a \<^verbatim>\<open>TEXT\<close> column: \<^verbatim>\<open>None\<close> is NULL, a
  string is itself, an integer within 64 bits (a \<^verbatim>\<open>bool\<close> is one) becomes its decimal
  text; a list, a dictionary, a larger integer and a string holding a surrogate make
  \<^verbatim>\<open>execute\<close> raise, which is the outer \<open>None\<close>.
\<close>

function digits :: "nat \<Rightarrow> pstr" where
  "digits n = (if n < 10 then [48 + n] else digits (n div 10) @ [48 + n mod 10])"
  by pat_completeness auto
termination
  by (relation "measure id") auto

definition decimal :: "int \<Rightarrow> pstr" where
  "decimal i = (if i < 0 then 45 # digits (nat (- i)) else digits (nat i))"

definition surrogate :: "nat \<Rightarrow> bool" where
  "surrogate c = (55296 \<le> c \<and> c \<le> 57343)"

fun bind_text :: "pyval \<Rightarrow> pstr option option" where
  "bind_text PNone = Some None"
| "bind_text (PStr s) = (if list_ex surrogate s then None else Some (Some s))"
| "bind_text (PInt i) =
     (if - (2 ^ 63) \<le> i \<and> i < 2 ^ 63 then Some (Some (decimal i)) else None)"
| "bind_text (PBool b) = Some (Some (decimal (if b then 1 else 0)))"
| "bind_text (PList _) = None"
| "bind_text (PDict _) = None"

text \<open>
  \<^verbatim>\<open>add_document\<close>. \<^verbatim>\<open>json.dumps\<close> is the parameter \<open>dumps\<close> (\<open>None\<close> when it raises).
  Everything from the connection to the commit stands inside the \<^verbatim>\<open>try\<close>: whatever
  raises there gives \<^verbatim>\<open>(False, None)\<close> and leaves the table as it was.
\<close>

definition add_document ::
  "(pyval \<Rightarrow> pstr option) \<Rightarrow> env \<Rightarrow> db \<Rightarrow> pyval \<Rightarrow> pyval \<Rightarrow> pyval
     \<Rightarrow> db \<times> bool \<times> int option" where
  "add_document dumps e d dt identifier data_dict =
     (if fault e then (d, False, None)
      else case dumps data_dict of
        None \<Rightarrow> (d, False, None)
      | Some json_text \<Rightarrow>
          (case (bind_text dt, bind_text identifier, bind_text (PStr json_text)) of
             (Some t, Some i, Some (Some txt)) \<Rightarrow>
               (let new_id = seq d + 1
                in (\<lparr>rows = rows d @ [\<lparr>doc_id = new_id, doc_type = t, ident = i,
                                          data = txt, created_time = now e\<rparr>],
                     seq = new_id\<rparr>,
                    True, Some new_id))
           | _ \<Rightarrow> (d, False, None)))"

text \<open>
  The operator \<^verbatim>\<open>LIKE\<close> of SQLite, pattern first. Its comparison: \<^verbatim>\<open>%\<close> (37) stands for
  any run of characters, \<^verbatim>\<open>_\<close> (95) for any one character, and any other character for
  itself, the 26 ASCII letters without regard to case. The statement has no
  \<^verbatim>\<open>ESCAPE\<close>. SQLite reads both the pattern and the text as C strings: each ends before
  its first character U+0000.
\<close>

definition ascii_lower :: "nat \<Rightarrow> nat" where
  "ascii_lower c = (if 65 \<le> c \<and> c \<le> 90 then c + 32 else c)"

fun pattern_compare :: "pstr \<Rightarrow> pstr \<Rightarrow> bool" where
  "pattern_compare [] s = (s = [])"
| "pattern_compare (p # ps) [] = (p = 37 \<and> pattern_compare ps [])"
| "pattern_compare (p # ps) (c # cs) =
     (if p = 37 then pattern_compare ps (c # cs) \<or> pattern_compare (p # ps) cs
      else if p = 95 then pattern_compare ps cs
      else ascii_lower p = ascii_lower c \<and> pattern_compare ps cs)"

definition c_string :: "pstr \<Rightarrow> pstr" where
  "c_string s = takeWhile (\<lambda>c. c \<noteq> 0) s"

definition like :: "pstr \<Rightarrow> pstr \<Rightarrow> bool" where
  "like pattern text = pattern_compare (c_string pattern) (c_string text)"

text \<open>
  \<^verbatim>\<open>ORDER BY created_time DESC\<close>: rows with equal times keep the order of the scan, as
  SQLite returns them. \<^verbatim>\<open>LIMIT ?\<close>: a negative limit is no limit; the limit that reaches
  the statement is a 64-bit integer, \<open>bind_params\<close> below has the others.
\<close>

fun insert_desc :: "'d document \<Rightarrow> 'd document list \<Rightarrow> 'd document list" where
  "insert_desc r [] = [r]"
| "insert_desc r (x # xs) =
     (if created_time x \<le> created_time r then r # x # xs else x # insert_desc r xs)"

fun order_by_desc :: "'d document list \<Rightarrow> 'd document list" where
  "order_by_desc [] = []"
| "order_by_desc (r # rs) = insert_desc r (order_by_desc rs)"

definition sql_limit :: "int \<Rightarrow> 'a list \<Rightarrow> 'a list" where
  "sql_limit n xs = (if n < 0 then xs else take (nat n) xs)"

text \<open>Python's truth value of an optional string argument: \<^verbatim>\<open>None\<close> and \<^verbatim>\<open>""\<close> are false.\<close>

definition given :: "pstr option \<Rightarrow> bool" where
  "given a = (case a of None \<Rightarrow> False | Some s \<Rightarrow> s \<noteq> [])"

text \<open>
  \<^verbatim>\<open>query_documents\<close>: the statement it builds, then the loop over the rows.
  \<^verbatim>\<open>json.loads\<close> is the parameter \<open>loads\<close> (\<open>None\<close> when it raises). \<open>select_rows\<close>
  is what the statement yields when it runs.
\<close>

definition select_rows :: "db \<Rightarrow> pstr option \<Rightarrow> pstr option \<Rightarrow> int \<Rightarrow> pstr document list" where
  "select_rows d search_text dt limit =
     (let r1 = (if given dt then filter (\<lambda>r. doc_type r = dt) (rows d) else rows d);
          r2 = (if given search_text
                then filter (\<lambda>r. like ([37] @ the search_text @ [37]) (data r)) r1 else r1)
      in sql_limit limit (order_by_desc r2))"

definition decode :: "(pstr \<Rightarrow> pyval option) \<Rightarrow> pstr document \<Rightarrow> pyval document" where
  "decode loads r =
     \<lparr>doc_id = doc_id r, doc_type = doc_type r, ident = ident r,
      data = (case loads (data r) of Some data_obj \<Rightarrow> data_obj | None \<Rightarrow> PStr (data r)),
      created_time = created_time r\<rparr>"

text \<open>
  \<^verbatim>\<open>cursor.execute\<close> does not always run the statement. It binds the parameters in their
  order, the type, the pattern, the limit, and raises at the first it cannot bind: a
  string holding a surrogate has no UTF-8 form, a string of \<open>2 ^ 31\<close> bytes of UTF-8 or
  more is too long for the call that binds it, one of more than \<open>10 ^ 9\<close> bytes is too
  big for SQLite, and a limit outside 64 bits is no SQLite integer. And SQLite refuses a
  \<^verbatim>\<open>LIKE\<close> pattern of more than 50000 bytes of UTF-8 at the first row it would compare
  it with, which there is when the limit is not 0 and a row passes the test on the type.
  \<^verbatim>\<open>query_documents\<close> has no \<^verbatim>\<open>try\<close> around the call: the exception leaves it.
\<close>

definition utf8_length :: "nat \<Rightarrow> nat" where
  "utf8_length c = (if c < 128 then 1 else if c < 2048 then 2 else if c < 65536 then 3 else 4)"

definition byte_length :: "pstr \<Rightarrow> nat" where
  "byte_length s = sum_list (map utf8_length s)"

definition bind_str :: "pstr \<Rightarrow> py_error option" where
  "bind_str s =
     (if list_ex surrogate s then Some UnicodeEncodeError
      else if 2 ^ 31 \<le> byte_length s then Some OverflowError
      else if 10 ^ 9 < byte_length s then Some DataError
      else None)"

definition bind_int :: "int \<Rightarrow> py_error option" where
  "bind_int i = (if i < - (2 ^ 63) \<or> 2 ^ 63 \<le> i then Some OverflowError else None)"

definition bind_params :: "pstr option \<Rightarrow> pstr option \<Rightarrow> int \<Rightarrow> py_error option" where
  "bind_params search_text dt limit =
     (case (if given dt then bind_str (the dt) else None) of
        Some e \<Rightarrow> Some e
      | None \<Rightarrow>
          (case (if given search_text then bind_str ([37] @ the search_text @ [37]) else None) of
             Some e \<Rightarrow> Some e
           | None \<Rightarrow> bind_int limit))"

definition too_complex :: "db \<Rightarrow> pstr option \<Rightarrow> pstr option \<Rightarrow> int \<Rightarrow> bool" where
  "too_complex d search_text dt limit =
     (given search_text \<and> 50000 < byte_length ([37] @ the search_text @ [37]) \<and> limit \<noteq> 0
      \<and> (if given dt then filter (\<lambda>r. doc_type r = dt) (rows d) else rows d) \<noteq> [])"

definition execute_select ::
  "db \<Rightarrow> pstr option \<Rightarrow> pstr option \<Rightarrow> int \<Rightarrow> py_error + pstr document list" where
  "execute_select d search_text dt limit =
     (case bind_params search_text dt limit of
        Some e \<Rightarrow> Inl e
      | None \<Rightarrow>
          if too_complex d search_text dt limit then Inl OperationalError
          else Inr (select_rows d search_text dt limit))"

definition query_documents ::
  "(pstr \<Rightarrow> pyval option) \<Rightarrow> db \<Rightarrow> pstr option \<Rightarrow> pstr option \<Rightarrow> int
     \<Rightarrow> py_error + pyval document list" where
  "query_documents loads d search_text dt limit =
     (case execute_select d search_text dt limit of
        Inl e \<Rightarrow> Inl e
      | Inr fetched \<Rightarrow> Inr (map (decode loads) fetched))"

section \<open>The HTTP surface\<close>

text \<open>
  A view returns the value it hands to \<^verbatim>\<open>jsonify\<close> and a status (200 when it names
  none). An exception that leaves a view is answered by Flask with status 500.
\<close>

record response =
  status :: nat
  body :: pyval

definition http_status :: "py_error + response \<Rightarrow> nat" where
  "http_status r = (case r of Inl _ \<Rightarrow> 500 | Inr resp \<Rightarrow> status resp)"

definition envelope :: "string \<Rightarrow> pstr \<Rightarrow> pyval" where
  "envelope st msg = PDict [(PStr (str ''status''), PStr (str st)), (PStr (str ''message''), PStr msg)]"

text \<open>The messages of the views, Chinese in the source: "record added", "adding failed",
  "JSON must be an array", "please upload a JSON array or a CSV file".\<close>

definition msg_added :: pstr where
  "msg_added = [35760, 24405, 24050, 28155, 21152]"

definition msg_add_failed :: pstr where
  "msg_add_failed = [28155, 21152, 22833, 36133]"

definition msg_not_array :: pstr where
  "msg_not_array = [74, 83, 79, 78, 32, 24517, 39035, 26159, 25968, 32452]"

definition msg_no_input :: pstr where
  "msg_no_input = [35831, 19978, 20256, 32, 74, 83, 79, 78, 32, 25968, 32452, 25110, 32,
                   67, 83, 86, 32, 25991, 20214]"

text \<open>\<^verbatim>\<open>api_record\<close>, from the decoded body \<^verbatim>\<open>request.json\<close>.\<close>

definition api_record ::
  "(pyval \<Rightarrow> pstr option) \<Rightarrow> env \<Rightarrow> db \<Rightarrow> pyval \<Rightarrow> db \<times> (py_error + response)" where
  "api_record dumps e d request_json =
     (case request_json of
        PDict kv \<Rightarrow>
          (let student_name = dict_get kv (PStr (str ''student_name'')) PNone;
               record_type = dict_get kv (PStr (str ''record_type'')) (PStr (str ''record''));
               content = dict_get kv (PStr (str ''content'')) PNone;
               record = PDict [(PStr (str ''student_name''), student_name),
                               (PStr (str ''record_type''), record_type),
                               (PStr (str ''content''), content),
                               (PStr (str ''time''), PStr (isoformat e))];
               (d', ok, new_id) = add_document dumps e d (PStr (str ''record'')) student_name record
           in if ok then (d', Inr \<lparr>status = 200, body = envelope ''success'' msg_added\<rparr>)
              else (d', Inr \<lparr>status = 200, body = envelope ''error'' msg_add_failed\<rparr>))
      | _ \<Rightarrow> (d, Inl AttributeError))"

text \<open>
  \<^verbatim>\<open>api_import\<close>, first the loop over the items of a JSON array. The \<open>i\<close>-th item meets
  the outside conditions \<open>E i\<close>. An item that is no dictionary has no \<^verbatim>\<open>get\<close>: the
  \<^verbatim>\<open>AttributeError\<close> leaves the loop and is caught by the view, with its text.
\<close>

definition reserved :: "pyval \<Rightarrow> bool" where
  "reserved k = (k = PStr (str ''doc_type'') \<or> k = PStr (str ''identifier''))"

fun is_dict :: "pyval \<Rightarrow> bool" where
  "is_dict (PDict _) = True"
| "is_dict _ = False"

definition id_value :: "int option \<Rightarrow> pyval" where
  "id_value new_id = (case new_id of None \<Rightarrow> PNone | Some n \<Rightarrow> PInt n)"

definition result_entry :: "string \<Rightarrow> pyval \<Rightarrow> bool \<Rightarrow> int option \<Rightarrow> pyval" where
  "result_entry key it ok new_id =
     (if ok then PDict [(PStr (str key), it), (PStr (str ''status''), PStr (str ''ok'')),
                        (PStr (str ''id''), id_value new_id)]
      else PDict [(PStr (str key), it), (PStr (str ''status''), PStr (str ''fail''))])"

fun import_items ::
  "(pyval \<Rightarrow> pstr option) \<Rightarrow> (nat \<Rightarrow> env) \<Rightarrow> db \<Rightarrow> pyval list \<Rightarrow> pyval list \<Rightarrow> int \<Rightarrow> int
     \<Rightarrow> db \<times> (pstr + pyval list \<times> int \<times> int)" where
  "import_items dumps E d [] results succ fail = (d, Inr (results, succ, fail))"
| "import_items dumps E d (it # items) results succ fail =
     (case it of
        PDict kv \<Rightarrow>
          (let dt = dict_get kv (PStr (str ''doc_type'')) PNone;
               identifier = dict_get kv (PStr (str ''identifier'')) PNone;
               data_dict =
                 (if dict_has kv (PStr (str ''data''))
                     \<and> is_dict (dict_get kv (PStr (str ''data'')) PNone)
                  then dict_get kv (PStr (str ''data'')) PNone
                  else PDict (filter (\<lambda>(k, v). \<not> reserved k) kv));
               (d', ok, new_id) = add_document dumps (E 0) d dt identifier data_dict
           in if ok
              then import_items dumps (\<lambda>i. E (Suc i)) d' items
                     (results @ [result_entry ''item'' it ok new_id]) (succ + 1) fail
              else import_items dumps (\<lambda>i. E (Suc i)) d' items
                     (results @ [result_entry ''item'' it ok new_id]) succ (fail + 1))
      | _ \<Rightarrow> (d, Inl (no_attribute it (str ''get''))))"

text \<open>
  The rows of \<^verbatim>\<open>csv.DictReader\<close>, from the records that \<^verbatim>\<open>csv.reader\<close> splits the
  file into: the first record is the header, empty records are skipped, a record
  shorter than the header is filled with \<^verbatim>\<open>None\<close>, and the surplus cells of a longer
  one go, as a list, under the key \<^verbatim>\<open>None\<close>.
\<close>

definition dict_row :: "pstr list \<Rightarrow> pstr list \<Rightarrow> (pyval \<times> pyval) list" where
  "dict_row fieldnames row =
     (let d = foldl (\<lambda>d (k, v). dict_set d (PStr k) (PStr v)) [] (zip fieldnames row);
          lf = length fieldnames;
          lr = length row
      in if lf < lr then dict_set d PNone (PList (map PStr (drop lf row)))
         else if lf > lr then foldl (\<lambda>d k. dict_set d (PStr k) PNone) d (drop lr fieldnames)
         else d)"

definition dict_reader :: "pstr list list \<Rightarrow> (pyval \<times> pyval) list list" where
  "dict_reader records =
     (case records of
        [] \<Rightarrow> []
      | fieldnames # rest \<Rightarrow> map (dict_row fieldnames) (filter (\<lambda>row. row \<noteq> []) rest))"

text \<open>\<^verbatim>\<open>x or None\<close>.\<close>

fun truthy :: "pyval \<Rightarrow> bool" where
  "truthy PNone = False"
| "truthy (PBool b) = b"
| "truthy (PInt i) = (i \<noteq> 0)"
| "truthy (PStr s) = (s \<noteq> [])"
| "truthy (PList xs) = (xs \<noteq> [])"
| "truthy (PDict kv) = (kv \<noteq> [])"

definition or_none :: "pyval \<Rightarrow> pyval" where
  "or_none v = (if truthy v then v else PNone)"

fun import_rows ::
  "(pyval \<Rightarrow> pstr option) \<Rightarrow> (nat \<Rightarrow> env) \<Rightarrow> db \<Rightarrow> (pyval \<times> pyval) list list \<Rightarrow> pyval list
     \<Rightarrow> int \<Rightarrow> int \<Rightarrow> db \<times> pyval list \<times> int \<times> int" where
  "import_rows dumps E d [] results succ fail = (d, results, succ, fail)"
| "import_rows dumps E d (row # rest) results succ fail =
     (let dt = or_none (dict_get row (PStr (str ''doc_type'')) PNone);
          identifier = or_none (dict_get row (PStr (str ''identifier'')) PNone);
          data_dict = PDict (filter (\<lambda>(k, v). \<not> reserved k) row);
          (d', ok, new_id) = add_document dumps (E 0) d dt identifier data_dict
      in if ok
         then import_rows dumps (\<lambda>i. E (Suc i)) d' rest
                (results @ [result_entry ''row'' (PDict row) ok new_id]) (succ + 1) fail
         else import_rows dumps (\<lambda>i. E (Suc i)) d' rest
                (results @ [result_entry ''row'' (PDict row) ok new_id]) succ (fail + 1))"

text \<open>
  The request of \<^verbatim>\<open>api_import\<close>. With a JSON content type, \<^verbatim>\<open>get_json\<close> gives the
  decoded body (\<open>Inr\<close>) or raises (\<open>Inl\<close>, with the text of the exception). Otherwise
  the form may hold the field \<^verbatim>\<open>file\<close>. Its bytes make \<^verbatim>\<open>decode\<close> raise, or are the text
  of some records, or are the text of some records after which the parser of \<^verbatim>\<open>csv\<close>
  raises, with the text of its exception.
\<close>

datatype upload = Undecodable pstr | Records "pstr list list" | Broken "pstr list list" pstr

text \<open>
  \<^verbatim>\<open>csv.reader\<close> yields the records one by one, as the loop asks for them, and raises at
  a record with a cell of more than 131072 characters, the field limit of \<^verbatim>\<open>csv\<close>. The
  result is what it yields and the text of the exception that ends the reading, if any.
\<close>

definition field_limit :: nat where
  "field_limit = 131072"

definition field_too_large :: pstr where
  "field_too_large = str ''field larger than field limit (131072)''"

fun csv_reader :: "pstr list list \<Rightarrow> pstr option \<Rightarrow> pstr list list \<times> pstr option" where
  "csv_reader [] failure = ([], failure)"
| "csv_reader (record # records) failure =
     (if list_ex (\<lambda>cell. field_limit < length cell) record then ([], Some field_too_large)
      else (case csv_reader records failure of (yielded, e) \<Rightarrow> (record # yielded, e)))"

text \<open>
  \<^verbatim>\<open>jsonify\<close> sorts the keys of every dictionary it writes. The keys of a row are strings,
  and \<^verbatim>\<open>None\<close> for a line longer than the header: a row holding both cannot be sorted,
  and \<^verbatim>\<open>jsonify\<close> raises \<^verbatim>\<open>TypeError\<close> with the text \<open>unsortable\<close>. In the items of a JSON
  array every key is a string.
\<close>

definition mixed_keys :: "(pyval \<times> pyval) list \<Rightarrow> bool" where
  "mixed_keys row = (list_ex (\<lambda>(k, v). k = PNone) row \<and> list_ex (\<lambda>(k, v). k \<noteq> PNone) row)"

definition unsortable :: pstr where
  "unsortable = [39, 60, 39] @ str '' not supported between instances of '' @ [39]
                @ str ''NoneType'' @ [39] @ str '' and '' @ [39] @ str ''str'' @ [39]"

datatype import_request = JsonBody "pstr + pyval" | FormBody "upload option"

definition summary :: "pyval list \<Rightarrow> int \<Rightarrow> int \<Rightarrow> response" where
  "summary results succ fail =
     \<lparr>status = 200,
      body = PDict [(PStr (str ''status''), PStr (str ''success'')),
                    (PStr (str ''summary''),
                       PDict [(PStr (str ''success''), PInt succ), (PStr (str ''fail''), PInt fail)]),
                    (PStr (str ''details''), PList results)]\<rparr>"

text \<open>
  The second case of \<^verbatim>\<open>api_import\<close>, from the records of the file. The rows read before
  the parser raises are inserted; the exception of the parser, or of \<^verbatim>\<open>jsonify\<close> on the
  summary, is caught by the view.
\<close>

definition import_csv ::
  "(pyval \<Rightarrow> pstr option) \<Rightarrow> (nat \<Rightarrow> env) \<Rightarrow> db \<Rightarrow> pstr list list \<Rightarrow> pstr option
     \<Rightarrow> db \<times> response" where
  "import_csv dumps E d records failure =
     (case csv_reader records failure of
        (yielded, e) \<Rightarrow>
          (case import_rows dumps E d (dict_reader yielded) [] 0 0 of
             (d', results, succ, fail) \<Rightarrow>
               (case e of
                  Some m \<Rightarrow> (d', \<lparr>status = 500, body = envelope ''error'' m\<rparr>)
                | None \<Rightarrow>
                    if list_ex mixed_keys (dict_reader yielded)
                    then (d', \<lparr>status = 500, body = envelope ''error'' unsortable\<rparr>)
                    else (d', summary results succ fail))))"

definition api_import ::
  "(pyval \<Rightarrow> pstr option) \<Rightarrow> (nat \<Rightarrow> env) \<Rightarrow> db \<Rightarrow> import_request \<Rightarrow> db \<times> response" where
  "api_import dumps E d request =
     (case request of
        JsonBody (Inl m) \<Rightarrow> (d, \<lparr>status = 500, body = envelope ''error'' m\<rparr>)
      | JsonBody (Inr (PList items)) \<Rightarrow>
          (case import_items dumps E d items [] 0 0 of
             (d', Inl m) \<Rightarrow> (d', \<lparr>status = 500, body = envelope ''error'' m\<rparr>)
           | (d', Inr (results, succ, fail)) \<Rightarrow> (d', summary results succ fail))
      | JsonBody (Inr _) \<Rightarrow> (d, \<lparr>status = 400, body = envelope ''error'' msg_not_array\<rparr>)
      | FormBody (Some (Undecodable m)) \<Rightarrow> (d, \<lparr>status = 500, body = envelope ''error'' m\<rparr>)
      | FormBody (Some (Records records)) \<Rightarrow> import_csv dumps E d records None
      | FormBody (Some (Broken records m)) \<Rightarrow> import_csv dumps E d records (Some m)
      | FormBody None \<Rightarrow> (d, \<lparr>status = 400, body = envelope ''error'' msg_no_input\<rparr>))"






section \<open>Inputs and notions used by the properties\<close>

text \<open>The message of the specification's example: "please look up the records of Zhang San", in Chinese.\<close>

definition example_text :: pstr where
  "example_text = [24110, 25105, 26597, 35810, 24352, 19977, 30340, 35760, 24405]"

text \<open>
  A sequence of calls of \<^verbatim>\<open>add_document\<close>, each with the outside conditions it meets
  and its three arguments.
\<close>

fun insert_all ::
  "(pyval \<Rightarrow> pstr option) \<Rightarrow> db \<Rightarrow> (env \<times> pyval \<times> pyval \<times> pyval) list \<Rightarrow> db" where
  "insert_all dumps d [] = d"
| "insert_all dumps d ((e, dt, identifier, data_dict) # calls) =
     insert_all dumps (fst (add_document dumps e d dt identifier data_dict)) calls"

text \<open>
  Concrete inputs. \<open>dumps_empty\<close> is \<^verbatim>\<open>json.dumps\<close> where the examples call it, on the
  empty dictionary; \<open>at_time t\<close> is an insert without storage fault while the clock
  reads \<open>t\<close>.
\<close>

definition dumps_empty :: "pyval \<Rightarrow> pstr option" where
  "dumps_empty v = (if v = PDict [] then Some (str ''{}'') else None)"

definition at_time :: "nat \<Rightarrow> env" where
  "at_time t = \<lparr>fault = False, now = t, isoformat = []\<rparr>"

definition two_inserts :: "(env \<times> pyval \<times> pyval \<times> pyval) list" where
  "two_inserts = [(at_time 10, PNone, PNone, PDict []), (at_time 9, PNone, PNone, PDict [])]"

definition two_inserts_ok :: "(env \<times> pyval \<times> pyval \<times> pyval) list" where
  "two_inserts_ok = [(at_time 9, PNone, PNone, PDict []), (at_time 10, PNone, PNone, PDict [])]"

text \<open>
  The invariant of \<^verbatim>\<open>AUTOINCREMENT\<close>: the ids grow along the table and none exceeds the
  counter. \<open>times_ok ts d\<close>: the creation times grow along the table and on into the
  clock readings \<open>ts\<close> still to come.
\<close>

definition ids_ok :: "db \<Rightarrow> bool" where
  "ids_ok d = (sorted_wrt (<) (map doc_id (rows d)) \<and> list_all (\<lambda>r. doc_id r \<le> seq d) (rows d))"

definition times_ok :: "nat list \<Rightarrow> db \<Rightarrow> bool" where
  "times_ok ts d = (sorted (map created_time (rows d) @ ts))"

text \<open>
  The operation the import applies to an item or a row: all pairs of a mapping except
  those under the reserved keys \<^verbatim>\<open>doc_type\<close> and \<^verbatim>\<open>identifier\<close>. And the data that the
  import of a JSON array passes to \<^verbatim>\<open>add_document\<close> for the item \<open>kv\<close>: its member
  \<^verbatim>\<open>data\<close> when that is an object, else those pairs.
\<close>

definition data_fields :: "(pyval \<times> pyval) list \<Rightarrow> (pyval \<times> pyval) list" where
  "data_fields kv = filter (\<lambda>(k, v). \<not> reserved k) kv"

definition item_data :: "(pyval \<times> pyval) list \<Rightarrow> pyval" where
  "item_data kv =
     (if dict_has kv (PStr (str ''data'')) \<and> is_dict (dict_get kv (PStr (str ''data'')) PNone)
      then dict_get kv (PStr (str ''data'')) PNone
      else PDict (data_fields kv))"

text \<open>Two batches: one with a number between two objects, one of two objects of which the
  first has a list for its \<^verbatim>\<open>doc_type\<close>, which SQLite cannot bind.\<close>

definition mixed_items :: "pyval list" where
  "mixed_items = [PDict [], PInt 5, PDict []]"

definition failing_first :: "(pyval \<times> pyval) list list" where
  "failing_first = [[(PStr (str ''doc_type''), PList [])], []]"

text \<open>Whether a decoded body is a JSON array.\<close>

fun is_list :: "pyval \<Rightarrow> bool" where
  "is_list (PList _) = True"
| "is_list _ = False"

text \<open>More concrete inputs: a serialiser that succeeds on every value, and the body of a
  chat request whose message is \<^verbatim>\<open>hi\<close>.\<close>

definition dumps_any :: "pyval \<Rightarrow> pstr option" where
  "dumps_any v = Some (str ''{...}'')"











text \<open>
  A CSV file with the header \<^verbatim>\<open>doc_type,name,age\<close> and the line \<^verbatim>\<open>student,Bob\<close>, one cell
  short; \<open>dumps_bob\<close> is \<^verbatim>\<open>json.dumps\<close> on the one dictionary
  \<^verbatim>\<open>{"name": "Bob", "age": None}\<close>, whose text is \<^verbatim>\<open>{"name": "Bob", "age": null}\<close>. And
  a line of full length under the header \<^verbatim>\<open>doc_type,name\<close>, with the same row as a JSON
  item.
\<close>

definition short_header :: "pstr list" where
  "short_header = [str ''doc_type'', str ''name'', str ''age'']"

definition short_cells :: "pstr list" where
  "short_cells = [str ''student'', str ''Bob'']"

definition bob_text :: pstr where
  "bob_text = [123, 34, 110, 97, 109, 101, 34, 58, 32, 34, 66, 111, 98, 34, 44, 32, 34, 97,
               103, 101, 34, 58, 32, 110, 117, 108, 108, 125]"

definition dumps_bob :: "pyval \<Rightarrow> pstr option" where
  "dumps_bob v =
     (if v = PDict [(PStr (str ''name''), PStr (str ''Bob'')), (PStr (str ''age''), PNone)]
      then Some bob_text else None)"

definition full_header :: "pstr list" where
  "full_header = [str ''doc_type'', str ''name'']"

definition full_cells :: "pstr list" where
  "full_cells = [str ''student'', str ''Bob'']"

definition bob_item :: "(pyval \<times> pyval) list" where
  "bob_item = [(PStr (str ''doc_type''), PStr (str ''student'')), (PStr (str ''name''), PStr (str ''Bob''))]"

section \<open>Properties of the intent classifier\<close>

lemma starts_with_iff: "starts_with k s \<longleftrightarrow> (\<exists>post. s = k @ post)"
  by (induction k s rule: starts_with.induct) auto

lemma str_in_iff: "str_in k s \<longleftrightarrow> (\<exists>pre post. s = pre @ k @ post)"
proof (induction s)
  case Nil
  then show ?case by auto
next
  case (Cons c cs)
  show ?case
  proof
    assume "str_in k (c # cs)"
    then consider "starts_with k (c # cs)" | "str_in k cs" by auto
    then show "\<exists>pre post. c # cs = pre @ k @ post"
    proof cases
      case 1
      then obtain post where "c # cs = k @ post" by (auto simp: starts_with_iff)
      then have "c # cs = [] @ k @ post" by simp
      then show ?thesis by blast
    next
      case 2
      then obtain pre post where "cs = pre @ k @ post" using Cons.IH by auto
      then have "c # cs = (c # pre) @ k @ post" by simp
      then show ?thesis by blast
    qed
  next
    assume "\<exists>pre post. c # cs = pre @ k @ post"
    then obtain pre post where eq: "c # cs = pre @ k @ post" by auto
    show "str_in k (c # cs)"
    proof (cases pre)
      case Nil
      then have "starts_with k (c # cs)" using eq by (auto simp: starts_with_iff)
      then show ?thesis by simp
    next
      case (Cons p ps)
      then have "cs = ps @ k @ post" using eq by simp
      then have "str_in k cs" using Cons.IH by blast
      then show ?thesis by simp
    qed
  qed
qed

lemma analyze_general:
  "analyze lower text =
     (if \<exists>k \<in> set query_keywords. \<exists>pre post. lower text = pre @ k @ post then str ''query''
      else if \<exists>k \<in> set store_keywords. \<exists>pre post. lower text = pre @ k @ post then str ''store''
      else str ''query'')"
  unfolding analyze_def Let_def list_ex_iff str_in_iff by (rule refl)

lemma example_has_query_keyword:
  "list_ex (\<lambda>k. str_in k example_text) query_keywords"
  by (simp add: query_keywords_def example_text_def)

text \<open>
  C3. Whatever \<^verbatim>\<open>str.lower\<close> does, the classifier answers \<^verbatim>\<open>query\<close> when a query
  keyword occurs in the lower-cased text, otherwise \<^verbatim>\<open>store\<close> when a store keyword
  occurs in it, otherwise \<^verbatim>\<open>query\<close>. The example message, which lower-casing leaves
  as it is since Chinese characters have no case, is classified \<^verbatim>\<open>query\<close>.
\<close>

theorem analyze_spec:
  "analyze lower text =
     (if \<exists>k \<in> set query_keywords. \<exists>pre post. lower text = pre @ k @ post then str ''query''
      else if \<exists>k \<in> set store_keywords. \<exists>pre post. lower text = pre @ k @ post then str ''store''
      else str ''query'')
   \<and> (lower example_text = example_text \<longrightarrow> analyze lower example_text = str ''query'')"
proof
  show "analyze lower text =
     (if \<exists>k \<in> set query_keywords. \<exists>pre post. lower text = pre @ k @ post then str ''query''
      else if \<exists>k \<in> set store_keywords. \<exists>pre post. lower text = pre @ k @ post then str ''store''
      else str ''query'')"
    by (rule analyze_general)
  show "lower example_text = example_text \<longrightarrow> analyze lower example_text = str ''query''"
    using example_has_query_keyword by (simp add: analyze_def)
qed

theorem analyze_spec_witness:
  "map ascii_lower example_text = example_text
   \<and> analyze (map ascii_lower) example_text = str ''query''"
proof -
  have h: "map ascii_lower example_text = example_text"
    by (simp add: example_text_def ascii_lower_def)
  from analyze_spec [of "map ascii_lower" example_text] h show ?thesis by blast
qed

section \<open>Properties of the document store\<close>

lemma add_document_cases:
  assumes "add_document dumps e d dt i x = (d', ok, n)"
  shows "(ok \<and> n = Some (seq d + 1) \<and> seq d' = seq d + 1
           \<and> (\<exists>r. rows d' = rows d @ [r] \<and> doc_id r = seq d + 1 \<and> created_time r = now e
                  \<and> bind_text dt = Some (doc_type r) \<and> bind_text i = Some (ident r)
                  \<and> dumps x = Some (data r)))
         \<or> (\<not> ok \<and> n = None \<and> d' = d)"
  using assms
  by (auto simp: add_document_def Let_def split: if_splits option.splits)

lemma execute_select_cases:
  "(\<exists>e. execute_select d search_text dt limit = Inl e)
   \<or> execute_select d search_text dt limit = Inr (select_rows d search_text dt limit)"
  by (simp add: execute_select_def split: option.splits)

text \<open>
  C7. \<^verbatim>\<open>cursor.execute\<close> raises, and then \<^verbatim>\<open>query_documents\<close> raises the same exception and
  \<^verbatim>\<open>json.loads\<close> is not called; or it yields the selected rows, and then
  \<^verbatim>\<open>query_documents\<close> returns a list, whatever \<^verbatim>\<open>json.loads\<close> does: each document of the
  list is a selected row, in order, with its stored text replaced by the value
  \<^verbatim>\<open>json.loads\<close> gives for it, or by the stored text itself when \<^verbatim>\<open>json.loads\<close> raises.
\<close>

theorem query_documents_decodes:
  "(\<exists>e. execute_select d search_text dt limit = Inl e
         \<and> query_documents loads d search_text dt limit = Inl e)
   \<or> (\<exists>docs. execute_select d search_text dt limit = Inr (select_rows d search_text dt limit)
         \<and> query_documents loads d search_text dt limit = Inr docs
         \<and> list_all2
              (\<lambda>r doc. doc_id doc = doc_id r \<and> doc_type doc = doc_type r \<and> ident doc = ident r
                       \<and> created_time doc = created_time r
                       \<and> data doc = (case loads (data r) of Some v \<Rightarrow> v | None \<Rightarrow> PStr (data r)))
              (select_rows d search_text dt limit) docs)"
proof -
  have rel: "list_all2
      (\<lambda>r doc. doc_id doc = doc_id r \<and> doc_type doc = doc_type r \<and> ident doc = ident r
               \<and> created_time doc = created_time r
               \<and> data doc = (case loads (data r) of Some v \<Rightarrow> v | None \<Rightarrow> PStr (data r)))
      (select_rows d search_text dt limit)
      (map (decode loads) (select_rows d search_text dt limit))"
    unfolding list.rel_map by (rule list.rel_refl) (simp add: decode_def)
  from execute_select_cases [of d search_text dt limit] show ?thesis
  proof
    assume "\<exists>e. execute_select d search_text dt limit = Inl e"
    then show ?thesis by (auto simp: query_documents_def)
  next
    assume "execute_select d search_text dt limit = Inr (select_rows d search_text dt limit)"
    with rel show ?thesis by (simp add: query_documents_def)
  qed
qed

lemma ids_ok_add:
  assumes "ids_ok d"
  shows "ids_ok (fst (add_document dumps e d dt i x))"
proof -
  obtain d' ok n where eq: "add_document dumps e d dt i x = (d', ok, n)"
    by (cases "add_document dumps e d dt i x") auto
  from add_document_cases [OF eq] show ?thesis
  proof
    assume "\<not> ok \<and> n = None \<and> d' = d"
    then show ?thesis using assms eq by simp
  next
    assume a: "ok \<and> n = Some (seq d + 1) \<and> seq d' = seq d + 1
           \<and> (\<exists>r. rows d' = rows d @ [r] \<and> doc_id r = seq d + 1 \<and> created_time r = now e
                  \<and> bind_text dt = Some (doc_type r) \<and> bind_text i = Some (ident r)
                  \<and> dumps x = Some (data r))"
    then obtain r where r: "rows d' = rows d @ [r]" "doc_id r = seq d + 1" "seq d' = seq d + 1"
      by auto
    have "sorted_wrt (<) (map doc_id (rows d @ [r]))"
      using assms r(2) by (auto simp: ids_ok_def sorted_wrt_append list_all_iff)
    moreover have "list_all (\<lambda>r. doc_id r \<le> seq d + 1) (rows d @ [r])"
      using assms r(2) by (auto simp: ids_ok_def list_all_iff)
    ultimately show ?thesis using r eq by (simp add: ids_ok_def)
  qed
qed

lemma ids_ok_insert_all: "ids_ok d \<Longrightarrow> ids_ok (insert_all dumps d calls)"
  by (induction calls arbitrary: d) (auto simp: ids_ok_add)

lemma times_ok_add:
  assumes "times_ok (now e # ts) d"
  shows "times_ok ts (fst (add_document dumps e d dt i x))"
proof -
  obtain d' ok n where eq: "add_document dumps e d dt i x = (d', ok, n)"
    by (cases "add_document dumps e d dt i x") auto
  from add_document_cases [OF eq] show ?thesis
  proof
    assume "\<not> ok \<and> n = None \<and> d' = d"
    then show ?thesis using assms eq by (auto simp: times_ok_def sorted_append)
  next
    assume a: "ok \<and> n = Some (seq d + 1) \<and> seq d' = seq d + 1
           \<and> (\<exists>r. rows d' = rows d @ [r] \<and> doc_id r = seq d + 1 \<and> created_time r = now e
                  \<and> bind_text dt = Some (doc_type r) \<and> bind_text i = Some (ident r)
                  \<and> dumps x = Some (data r))"
    then obtain r where r: "rows d' = rows d @ [r]" "created_time r = now e"
      by auto
    then show ?thesis using assms eq by (simp add: times_ok_def)
  qed
qed

lemma times_ok_insert_all:
  "times_ok (map (\<lambda>c. now (fst c)) calls) d \<Longrightarrow> times_ok [] (insert_all dumps d calls)"
proof (induction calls arbitrary: d)
  case Nil
  then show ?case by simp
next
  case (Cons c calls)
  obtain e dt i x where c: "c = (e, dt, i, x)" by (cases c) auto
  from Cons.prems have "times_ok (now e # map (\<lambda>c. now (fst c)) calls) d" by (simp add: c)
  then have "times_ok (map (\<lambda>c. now (fst c)) calls) (fst (add_document dumps e d dt i x))"
    by (rule times_ok_add)
  then show ?case using Cons.IH by (simp add: c)
qed

text \<open>
  C6, as amended. After any sequence of inserts into a fresh table the ids are strictly
  increasing in insertion order, hence unique; the creation times are non-decreasing in
  insertion order provided the clock readings taken at the inserts are non-decreasing.
\<close>

theorem ids_increase_times_follow_clock:
  "sorted_wrt (<) (map doc_id (rows (insert_all dumps (init_database None) calls)))
   \<and> distinct (map doc_id (rows (insert_all dumps (init_database None) calls)))
   \<and> (sorted (map (\<lambda>c. now (fst c)) calls)
        \<longrightarrow> sorted (map created_time (rows (insert_all dumps (init_database None) calls))))"
proof -
  have i: "ids_ok (init_database None)" by (simp add: ids_ok_def init_database_def)
  have s: "sorted_wrt (<) (map doc_id (rows (insert_all dumps (init_database None) calls)))"
    using ids_ok_insert_all [OF i] by (simp add: ids_ok_def)
  then have "distinct (map doc_id (rows (insert_all dumps (init_database None) calls)))"
    using strict_sorted_iff by blast
  moreover have "sorted (map (\<lambda>c. now (fst c)) calls)
        \<longrightarrow> sorted (map created_time (rows (insert_all dumps (init_database None) calls)))"
  proof
    assume "sorted (map (\<lambda>c. now (fst c)) calls)"
    then have "times_ok (map (\<lambda>c. now (fst c)) calls) (init_database None)"
      by (simp add: times_ok_def init_database_def)
    from times_ok_insert_all [OF this] show "sorted (map created_time (rows (insert_all dumps (init_database None) calls)))"
      by (simp add: times_ok_def)
  qed
  ultimately show ?thesis using s by blast
qed

theorem ids_increase_times_follow_clock_witness:
  "sorted (map (\<lambda>c. now (fst c)) two_inserts_ok)
   \<and> map doc_id (rows (insert_all dumps_empty (init_database None) two_inserts_ok)) = [1, 2]
   \<and> sorted (map created_time (rows (insert_all dumps_empty (init_database None) two_inserts_ok)))"
proof -
  have h: "sorted (map (\<lambda>c. now (fst c)) two_inserts_ok)"
    by (simp add: two_inserts_ok_def at_time_def)
  have "map doc_id (rows (insert_all dumps_empty (init_database None) two_inserts_ok)) = [1, 2]"
    by (simp add: two_inserts_ok_def at_time_def dumps_empty_def init_database_def add_document_def
        str_def surrogate_def)
  with h ids_increase_times_follow_clock [of dumps_empty two_inserts_ok] show ?thesis by blast
qed

text \<open>
  C6 as stated fails when the wall clock is set back between two inserts: the second
  row carries the larger id and the earlier creation time.
\<close>

theorem created_time_counterexample:
  "map created_time (rows (insert_all dumps_empty (init_database None) two_inserts)) = [10, 9]
   \<and> map doc_id (rows (insert_all dumps_empty (init_database None) two_inserts)) = [1, 2]"
  by (simp add: two_inserts_def at_time_def dumps_empty_def init_database_def add_document_def
        str_def surrogate_def)

section \<open>Properties of the import\<close>

lemma import_items_trace:
  "\<exists>ds outs extra.
     length ds = Suc (length kvs) \<and> length outs = length kvs \<and> ds ! 0 = d
     \<and> (\<forall>i < length kvs.
          add_document dumps (E i) (ds ! i) (dict_get (kvs ! i) (PStr (str ''doc_type'')) PNone)
            (dict_get (kvs ! i) (PStr (str ''identifier'')) PNone) (item_data (kvs ! i))
          = (ds ! Suc i, outs ! i))
     \<and> import_items dumps E d (map PDict kvs) results succ fail =
         (last ds,
          Inr (results @ map2 (\<lambda>kv out. result_entry ''item'' (PDict kv) (fst out) (snd out)) kvs outs,
               succ + int (length (filter fst outs)),
               fail + (int (length kvs) - int (length (filter fst outs)))))
     \<and> rows (last ds) = rows d @ extra
     \<and> map (\<lambda>r. Some (doc_id r)) extra = map snd (filter fst outs)"
proof (induction kvs arbitrary: E d results succ fail)
  case Nil
  have "length [d] = Suc (length ([] :: (pyval \<times> pyval) list list))" by simp
  then show ?case
    by (intro exI [of _ "[d]"] exI [of _ "[]"]) simp
next
  case (Cons kv kvs)
  define dt where "dt = dict_get kv (PStr (str ''doc_type'')) PNone"
  define idf where "idf = dict_get kv (PStr (str ''identifier'')) PNone"
  obtain d1 ok n where add: "add_document dumps (E 0) d dt idf (item_data kv) = (d1, ok, n)"
    by (cases "add_document dumps (E 0) d dt idf (item_data kv)") auto
  define en where "en = result_entry ''item'' (PDict kv) ok n"
  have step: "import_items dumps E d (map PDict (kv # kvs)) results succ fail =
       import_items dumps (\<lambda>i. E (Suc i)) d1 (map PDict kvs) (results @ [en])
         (if ok then succ + 1 else succ) (if ok then fail else fail + 1)"
    using add
    by (cases "dict_has kv (PStr (str ''data''))
                 \<and> is_dict (dict_get kv (PStr (str ''data'')) PNone)")
       (auto simp: dt_def idf_def item_data_def data_fields_def en_def Let_def)
  from Cons.IH [where E = "\<lambda>i. E (Suc i)" and d = d1 and results = "results @ [en]"
                  and succ = "if ok then succ + 1 else succ"
                  and fail = "if ok then fail else fail + 1"]
  obtain ds outs extra where ih:
    "length ds = Suc (length kvs)" "length outs = length kvs" "ds ! 0 = d1"
    "\<forall>i < length kvs.
          add_document dumps (E (Suc i)) (ds ! i) (dict_get (kvs ! i) (PStr (str ''doc_type'')) PNone)
            (dict_get (kvs ! i) (PStr (str ''identifier'')) PNone) (item_data (kvs ! i))
          = (ds ! Suc i, outs ! i)"
    "import_items dumps (\<lambda>i. E (Suc i)) d1 (map PDict kvs) (results @ [en])
         (if ok then succ + 1 else succ) (if ok then fail else fail + 1) =
       (last ds,
        Inr ((results @ [en])
               @ map2 (\<lambda>kv out. result_entry ''item'' (PDict kv) (fst out) (snd out)) kvs outs,
             (if ok then succ + 1 else succ) + int (length (filter fst outs)),
             (if ok then fail else fail + 1)
               + (int (length kvs) - int (length (filter fst outs)))))"
    "rows (last ds) = rows d1 @ extra"
    "map (\<lambda>r. Some (doc_id r)) extra = map snd (filter fst outs)"
    by blast
  from add_document_cases [OF add]
  obtain extra1 where e1: "rows d1 = rows d @ extra1"
    "map (\<lambda>r. Some (doc_id r)) extra1 = (if ok then [n] else [])"
  proof
    assume a: "ok \<and> n = Some (seq d + 1) \<and> seq d1 = seq d + 1 \<and>
      (\<exists>r. rows d1 = rows d @ [r] \<and> doc_id r = seq d + 1 \<and> created_time r = now (E 0) \<and>
         bind_text dt = Some (doc_type r) \<and> bind_text idf = Some (ident r)
         \<and> dumps (item_data kv) = Some (data r))"
    then obtain r where "rows d1 = rows d @ [r]" "doc_id r = seq d + 1" by auto
    then show ?thesis using that [of "[r]"] a by simp
  next
    assume "\<not> ok \<and> n = None \<and> d1 = d"
    then show ?thesis using that [of "[]"] by simp
  qed
  have ne: "ds \<noteq> []" using ih(1) by auto
  have a1: "length (d # ds) = Suc (length (kv # kvs))" using ih(1) by simp
  have a2: "length ((ok, n) # outs) = length (kv # kvs)" using ih(2) by simp
  have a3: "(d # ds) ! 0 = d" by simp
  have a4: "\<forall>i < length (kv # kvs).
          add_document dumps (E i) ((d # ds) ! i)
            (dict_get ((kv # kvs) ! i) (PStr (str ''doc_type'')) PNone)
            (dict_get ((kv # kvs) ! i) (PStr (str ''identifier'')) PNone) (item_data ((kv # kvs) ! i))
          = ((d # ds) ! Suc i, ((ok, n) # outs) ! i)"
  proof (intro allI impI)
    fix i assume i: "i < length (kv # kvs)"
    show "add_document dumps (E i) ((d # ds) ! i)
            (dict_get ((kv # kvs) ! i) (PStr (str ''doc_type'')) PNone)
            (dict_get ((kv # kvs) ! i) (PStr (str ''identifier'')) PNone) (item_data ((kv # kvs) ! i))
          = ((d # ds) ! Suc i, ((ok, n) # outs) ! i)"
    proof (cases i)
      case 0
      then show ?thesis using add ih(3) by (simp add: dt_def idf_def)
    next
      case (Suc j)
      with i have "j < length kvs" by simp
      with ih(4) Suc show ?thesis by simp
    qed
  qed
  have a5: "import_items dumps E d (map PDict (kv # kvs)) results succ fail =
         (last (d # ds),
          Inr (results @ map2 (\<lambda>kv out. result_entry ''item'' (PDict kv) (fst out) (snd out))
                           (kv # kvs) ((ok, n) # outs),
               succ + int (length (filter fst ((ok, n) # outs))),
               fail + (int (length (kv # kvs)) - int (length (filter fst ((ok, n) # outs))))))"
    unfolding step ih(5) using ne by (simp add: en_def)
  have a6: "rows (last (d # ds)) = rows d @ (extra1 @ extra)"
    using ne ih(6) e1(1) by simp
  have a7: "map (\<lambda>r. Some (doc_id r)) (extra1 @ extra) = map snd (filter fst ((ok, n) # outs))"
    using ih(7) e1(2) by simp
  from a1 a2 a3 a4 a5 a6 a7 show ?case by blast
qed

text \<open>
  C1, as amended. For a JSON array of \<open>N\<close> objects the import calls \<^verbatim>\<open>add_document\<close> once
  for every item, in the order of the array, each call on the table the call before it
  left, whatever the outcomes of the calls before: \<open>ds\<close> are the \<open>N + 1\<close> tables and
  \<open>outs\<close> the \<open>N\<close> outcomes. The import answers with status 200 and the summary:
  \<^verbatim>\<open>details\<close> has \<open>N\<close> entries, the entry of an item echoes the item with the outcome of
  its own call, \<^verbatim>\<open>ok\<close> and the id, or \<^verbatim>\<open>fail\<close>; \<^verbatim>\<open>success\<close> is the number \<open>K\<close> of calls
  that succeeded and \<^verbatim>\<open>fail\<close> is \<open>N - K\<close>. The rows added to the table are \<open>K\<close>, and their ids
  are the ids of the \<^verbatim>\<open>ok\<close> entries, in order.
\<close>

theorem import_json_tally:
  "\<exists>ds outs extra.
     length ds = Suc (length kvs) \<and> length outs = length kvs \<and> ds ! 0 = d
     \<and> (\<forall>i < length kvs.
          add_document dumps (E i) (ds ! i) (dict_get (kvs ! i) (PStr (str ''doc_type'')) PNone)
            (dict_get (kvs ! i) (PStr (str ''identifier'')) PNone) (item_data (kvs ! i))
          = (ds ! Suc i, outs ! i))
     \<and> api_import dumps E d (JsonBody (Inr (PList (map PDict kvs)))) =
         (last ds,
          summary (map2 (\<lambda>kv out. result_entry ''item'' (PDict kv) (fst out) (snd out)) kvs outs)
            (int (length (filter fst outs)))
            (int (length kvs) - int (length (filter fst outs))))
     \<and> length (map2 (\<lambda>kv out. result_entry ''item'' (PDict kv) (fst out) (snd out)) kvs outs)
         = length kvs
     \<and> rows (last ds) = rows d @ extra
     \<and> map (\<lambda>r. Some (doc_id r)) extra = map snd (filter fst outs)"
proof -
  from import_items_trace [where kvs = kvs and d = d and dumps = dumps and E = E
         and results = "[]" and succ = 0 and fail = 0]
  obtain ds outs extra where h:
    "length ds = Suc (length kvs)" "length outs = length kvs" "ds ! 0 = d"
    "\<forall>i < length kvs.
          add_document dumps (E i) (ds ! i) (dict_get (kvs ! i) (PStr (str ''doc_type'')) PNone)
            (dict_get (kvs ! i) (PStr (str ''identifier'')) PNone) (item_data (kvs ! i))
          = (ds ! Suc i, outs ! i)"
    "import_items dumps E d (map PDict kvs) [] 0 0 =
       (last ds,
        Inr ([] @ map2 (\<lambda>kv out. result_entry ''item'' (PDict kv) (fst out) (snd out)) kvs outs,
             0 + int (length (filter fst outs)),
             0 + (int (length kvs) - int (length (filter fst outs)))))"
    "rows (last ds) = rows d @ extra"
    "map (\<lambda>r. Some (doc_id r)) extra = map snd (filter fst outs)"
    by blast
  have r: "api_import dumps E d (JsonBody (Inr (PList (map PDict kvs)))) =
         (last ds,
          summary (map2 (\<lambda>kv out. result_entry ''item'' (PDict kv) (fst out) (snd out)) kvs outs)
            (int (length (filter fst outs)))
            (int (length kvs) - int (length (filter fst outs))))"
    using h(5) by (simp add: api_import_def)
  have l: "length (map2 (\<lambda>kv out. result_entry ''item'' (PDict kv) (fst out) (snd out)) kvs outs)
         = length kvs"
    using h(2) by simp
  from h(1,2,3,4) r l h(6,7) show ?thesis by blast
qed

lemma add_unbound_type:
  "add_document dumps_empty (at_time t) d (PList []) PNone (PDict []) = (d, False, None)"
  by (simp add: add_document_def dumps_empty_def at_time_def)

lemma add_empty_document:
  "add_document dumps_empty (at_time t) d PNone PNone (PDict []) =
     (\<lparr>rows = rows d @ [\<lparr>doc_id = seq d + 1, doc_type = None, ident = None,
                            data = str ''{}'', created_time = t\<rparr>],
       seq = seq d + 1\<rparr>, True, Some (seq d + 1))"
  by (simp add: add_document_def dumps_empty_def at_time_def str_def surrogate_def Let_def)

theorem import_json_tally_witness:
  "add_document dumps_empty (at_time 0) (init_database None)
     (dict_get (failing_first ! 0) (PStr (str ''doc_type'')) PNone)
     (dict_get (failing_first ! 0) (PStr (str ''identifier'')) PNone) (item_data (failing_first ! 0))
     = (init_database None, False, None)
   \<and> add_document dumps_empty (at_time 0) (init_database None)
     (dict_get (failing_first ! 1) (PStr (str ''doc_type'')) PNone)
     (dict_get (failing_first ! 1) (PStr (str ''identifier'')) PNone) (item_data (failing_first ! 1))
     = (\<lparr>rows = [\<lparr>doc_id = 1, doc_type = None, ident = None, data = str ''{}'',
                    created_time = 0\<rparr>], seq = 1\<rparr>, True, Some 1)
   \<and> api_import dumps_empty (\<lambda>i. at_time 0) (init_database None)
       (JsonBody (Inr (PList (map PDict failing_first)))) =
       (\<lparr>rows = [\<lparr>doc_id = 1, doc_type = None, ident = None, data = str ''{}'',
                    created_time = 0\<rparr>], seq = 1\<rparr>,
        summary [result_entry ''item'' (PDict (failing_first ! 0)) False None,
                 result_entry ''item'' (PDict (failing_first ! 1)) True (Some 1)] 1 1)"
proof -
  let ?d1 = "\<lparr>rows = [\<lparr>doc_id = 1, doc_type = None, ident = None, data = str ''{}'',
                    created_time = 0\<rparr>], seq = 1\<rparr>"
  have c0: "add_document dumps_empty (at_time 0) (init_database None)
     (dict_get (failing_first ! 0) (PStr (str ''doc_type'')) PNone)
     (dict_get (failing_first ! 0) (PStr (str ''identifier'')) PNone) (item_data (failing_first ! 0))
     = (init_database None, False, None)"
    by (simp add: failing_first_def dict_get_def dict_has_def item_data_def data_fields_def
          reserved_def str_def add_unbound_type)
  have c1: "add_document dumps_empty (at_time 0) (init_database None)
     (dict_get (failing_first ! 1) (PStr (str ''doc_type'')) PNone)
     (dict_get (failing_first ! 1) (PStr (str ''identifier'')) PNone) (item_data (failing_first ! 1))
     = (?d1, True, Some 1)"
    by (simp add: failing_first_def dict_get_def dict_has_def item_data_def data_fields_def
          add_empty_document init_database_def)
  have n: "length failing_first = 2" by (simp add: failing_first_def)
  from import_json_tally [where kvs = failing_first and d = "init_database None"
         and dumps = dumps_empty and E = "\<lambda>i. at_time 0"]
  obtain ds outs where h:
    "length ds = Suc (length failing_first)" "length outs = length failing_first"
    "ds ! 0 = init_database None"
    "\<forall>i < length failing_first.
          add_document dumps_empty (at_time 0) (ds ! i)
            (dict_get (failing_first ! i) (PStr (str ''doc_type'')) PNone)
            (dict_get (failing_first ! i) (PStr (str ''identifier'')) PNone)
            (item_data (failing_first ! i))
          = (ds ! Suc i, outs ! i)"
    "api_import dumps_empty (\<lambda>i. at_time 0) (init_database None)
       (JsonBody (Inr (PList (map PDict failing_first)))) =
         (last ds,
          summary (map2 (\<lambda>kv out. result_entry ''item'' (PDict kv) (fst out) (snd out))
                     failing_first outs)
            (int (length (filter fst outs)))
            (int (length failing_first) - int (length (filter fst outs))))"
    by blast
  from h(4) n have "add_document dumps_empty (at_time 0) (ds ! 0)
            (dict_get (failing_first ! 0) (PStr (str ''doc_type'')) PNone)
            (dict_get (failing_first ! 0) (PStr (str ''identifier'')) PNone)
            (item_data (failing_first ! 0))
          = (ds ! Suc 0, outs ! 0)"
    by simp
  with c0 h(3) have s0: "ds ! Suc 0 = init_database None" "outs ! 0 = (False, None)"
    by simp_all
  from h(4) n have "add_document dumps_empty (at_time 0) (ds ! Suc 0)
            (dict_get (failing_first ! Suc 0) (PStr (str ''doc_type'')) PNone)
            (dict_get (failing_first ! Suc 0) (PStr (str ''identifier'')) PNone)
            (item_data (failing_first ! Suc 0))
          = (ds ! Suc (Suc 0), outs ! Suc 0)"
    by simp
  with c1 s0(1) have s1: "ds ! Suc (Suc 0) = ?d1" "outs ! Suc 0 = (True, Some 1)"
    by simp_all
  from h(2) n s0(2) s1(2) have outs: "outs = [(False, None), (True, Some 1)]"
    by (cases outs; cases "tl outs"; cases "tl (tl outs)") auto
  from h(1) n have "ds \<noteq> []" "length ds - 1 = Suc (Suc 0)" by auto
  then have "last ds = ds ! Suc (Suc 0)" by (simp add: last_conv_nth)
  with s1(1) have l: "last ds = ?d1" by simp
  have "api_import dumps_empty (\<lambda>i. at_time 0) (init_database None)
       (JsonBody (Inr (PList (map PDict failing_first)))) =
       (?d1,
        summary [result_entry ''item'' (PDict (failing_first ! 0)) False None,
                 result_entry ''item'' (PDict (failing_first ! 1)) True (Some 1)] 1 1)"
    unfolding h(5) l outs by (simp add: failing_first_def)
  with c0 c1 show ?thesis by (intro conjI)
qed

text \<open>
  C1 as stated fails on an array that holds an item which is no object: the first item
  is inserted, the number raises in the loop, the view answers 500 without any tally,
  and the third item is never processed.
\<close>

theorem import_json_abort_counterexample:
  "status (snd (api_import dumps_empty (\<lambda>i. at_time 0) (init_database None)
                  (JsonBody (Inr (PList mixed_items))))) = 500
   \<and> map doc_id (rows (fst (api_import dumps_empty (\<lambda>i. at_time 0) (init_database None)
                  (JsonBody (Inr (PList mixed_items)))))) = [1]"
  by (simp add: api_import_def mixed_items_def dumps_empty_def at_time_def init_database_def
        add_document_def dict_get_def dict_has_def str_def surrogate_def)

text \<open>
  C8, as amended. A decoded JSON body that is no array, and a request without JSON
  content type and without the field \<^verbatim>\<open>file\<close>, are answered with status 400 and an error
  envelope, and the table stays as it was.
\<close>

theorem import_rejects_wrong_shape:
  "(\<not> is_list v \<longrightarrow>
      api_import dumps E d (JsonBody (Inr v)) =
        (d, \<lparr>status = 400, body = envelope ''error'' msg_not_array\<rparr>))
   \<and> api_import dumps E d (FormBody None) =
        (d, \<lparr>status = 400, body = envelope ''error'' msg_no_input\<rparr>)"
  by (cases v) (simp_all add: api_import_def)

theorem import_rejects_wrong_shape_witness:
  "\<not> is_list (PDict [])
   \<and> api_import dumps_empty (\<lambda>i. at_time 0) (init_database None) (JsonBody (Inr (PDict []))) =
        (init_database None, \<lparr>status = 400, body = envelope ''error'' msg_not_array\<rparr>)
   \<and> api_import dumps_empty (\<lambda>i. at_time 0) (init_database None) (FormBody None) =
        (init_database None, \<lparr>status = 400, body = envelope ''error'' msg_no_input\<rparr>)"
proof -
  have h: "\<not> is_list (PDict [])" by simp
  from import_rejects_wrong_shape [of "PDict []" dumps_empty "\<lambda>i. at_time 0" "init_database None"] h
  show ?thesis by blast
qed

text \<open>
  C8 as stated fails in two ways. A body with JSON content type that cannot be decoded
  is neither an array nor a file, and is answered with 500, not 400. And the wrong shape
  is not the only failure of the whole operation: an array holding a number and an
  upload that is not UTF-8 are answered with 500 as well.
\<close>

theorem import_status_counterexample:
  "status (snd (api_import dumps_empty (\<lambda>i. at_time 0) (init_database None)
                  (JsonBody (Inl (str ''400 Bad Request''))))) = 500
   \<and> status (snd (api_import dumps_empty (\<lambda>i. at_time 0) (init_database None)
                  (JsonBody (Inr (PList [PInt 5]))))) = 500
   \<and> status (snd (api_import dumps_empty (\<lambda>i. at_time 0) (init_database None)
                  (FormBody (Some (Undecodable (str ''invalid start byte'')))))) = 500"
  by (simp add: api_import_def)

section \<open>Properties of the record endpoint\<close>

text \<open>
  C10, as amended. For every JSON object as body, \<^verbatim>\<open>api_record\<close> rejects nothing. It
  builds a payload with the four keys \<^verbatim>\<open>student_name\<close>, \<^verbatim>\<open>record_type\<close>, \<^verbatim>\<open>content\<close> and
  \<^verbatim>\<open>time\<close>, in which a \<^verbatim>\<open>student_name\<close> or \<^verbatim>\<open>content\<close> missing from the body is \<^verbatim>\<open>None\<close>,
  and calls \<^verbatim>\<open>add_document\<close> with the type \<^verbatim>\<open>record\<close>, the \<^verbatim>\<open>student_name\<close> of the body and
  that payload. It answers with status 200 and the table that the call leaves. When
  the call succeeds the answer says \<^verbatim>\<open>success\<close> and the table has one more row, of type
  \<^verbatim>\<open>record\<close>, whose data is the serialised payload; otherwise the answer says \<^verbatim>\<open>error\<close>
  and the table is unchanged.
\<close>

theorem api_record_no_validation:
  "\<exists>record d' ok new_id.
     add_document dumps e d (PStr (str ''record''))
       (dict_get kv (PStr (str ''student_name'')) PNone) (PDict record) = (d', ok, new_id)
     \<and> api_record dumps e d (PDict kv) =
         (d', Inr \<lparr>status = 200,
                   body = (if ok then envelope ''success'' msg_added
                           else envelope ''error'' msg_add_failed)\<rparr>)
     \<and> map fst record = [PStr (str ''student_name''), PStr (str ''record_type''),
                         PStr (str ''content''), PStr (str ''time'')]
     \<and> (\<not> dict_has kv (PStr (str ''student_name''))
          \<longrightarrow> getitem (PDict record) (PStr (str ''student_name'')) = Inr PNone)
     \<and> (\<not> dict_has kv (PStr (str ''content''))
          \<longrightarrow> getitem (PDict record) (PStr (str ''content'')) = Inr PNone)
     \<and> (if ok
        then \<exists>r. rows d' = rows d @ [r] \<and> new_id = Some (doc_id r)
                 \<and> doc_type r = Some (str ''record'')
                 \<and> dumps (PDict record) = Some (data r)
                 \<and> bind_text (dict_get kv (PStr (str ''student_name'')) PNone) = Some (ident r)
        else d' = d \<and> new_id = None)"
proof -
  define sn where "sn = dict_get kv (PStr (str ''student_name'')) PNone"
  define payload where "payload =
     [(PStr (str ''student_name''), sn),
      (PStr (str ''record_type''), dict_get kv (PStr (str ''record_type'')) (PStr (str ''record''))),
      (PStr (str ''content''), dict_get kv (PStr (str ''content'')) PNone),
      (PStr (str ''time''), PStr (isoformat e))]"
  obtain d' ok n where add:
    "add_document dumps e d (PStr (str ''record'')) sn (PDict payload) = (d', ok, n)"
    by (cases "add_document dumps e d (PStr (str ''record'')) sn (PDict payload)") auto
  have res: "api_record dumps e d (PDict kv) =
        (d', Inr \<lparr>status = 200,
                  body = (if ok then envelope ''success'' msg_added
                          else envelope ''error'' msg_add_failed)\<rparr>)"
    using add by (simp add: api_record_def Let_def sn_def payload_def)
  have keys: "map fst payload = [PStr (str ''student_name''), PStr (str ''record_type''),
                         PStr (str ''content''), PStr (str ''time'')]"
    by (simp add: payload_def)
  have m1: "\<not> dict_has kv (PStr (str ''student_name''))
          \<longrightarrow> getitem (PDict payload) (PStr (str ''student_name'')) = Inr PNone"
    by (simp add: payload_def sn_def dict_has_def dict_get_def str_def)
  have m2: "\<not> dict_has kv (PStr (str ''content''))
          \<longrightarrow> getitem (PDict payload) (PStr (str ''content'')) = Inr PNone"
    by (simp add: payload_def dict_has_def dict_get_def str_def)
  have out: "if ok
        then \<exists>r. rows d' = rows d @ [r] \<and> n = Some (doc_id r)
                 \<and> doc_type r = Some (str ''record'')
                 \<and> dumps (PDict payload) = Some (data r)
                 \<and> bind_text sn = Some (ident r)
        else d' = d \<and> n = None"
  proof (cases ok)
    case True
    with add_document_cases [OF add] obtain r where
      "rows d' = rows d @ [r]" "n = Some (seq d + 1)" "doc_id r = seq d + 1"
      "bind_text (PStr (str ''record'')) = Some (doc_type r)"
      "bind_text sn = Some (ident r)" "dumps (PDict payload) = Some (data r)"
      by auto
    moreover from this(4) have "doc_type r = Some (str ''record'')"
      by (simp split: if_splits)
    ultimately show ?thesis using True by auto
  next
    case False
    with add_document_cases [OF add] show ?thesis by auto
  qed
  from add res keys m1 m2 out show ?thesis
    unfolding sn_def
    by (intro exI [of _ payload] exI [of _ d'] exI [of _ ok] exI [of _ n] conjI) (assumption+)
qed

theorem api_record_no_validation_witness:
  "\<not> dict_has [] (PStr (str ''student_name'')) \<and> \<not> dict_has [] (PStr (str ''content''))
   \<and> (\<exists>record.
        add_document dumps_any (at_time 0) (init_database None) (PStr (str ''record''))
          (dict_get [] (PStr (str ''student_name'')) PNone) (PDict record)
          = (\<lparr>rows = [\<lparr>doc_id = 1, doc_type = Some (str ''record''), ident = None,
                         data = str ''{...}'', created_time = 0\<rparr>], seq = 1\<rparr>, True, Some 1)
        \<and> getitem (PDict record) (PStr (str ''student_name'')) = Inr PNone
        \<and> getitem (PDict record) (PStr (str ''content'')) = Inr PNone
        \<and> api_record dumps_any (at_time 0) (init_database None) (PDict []) =
            (\<lparr>rows = [\<lparr>doc_id = 1, doc_type = Some (str ''record''), ident = None,
                         data = str ''{...}'', created_time = 0\<rparr>], seq = 1\<rparr>,
             Inr \<lparr>status = 200, body = envelope ''success'' msg_added\<rparr>))"
proof -
  let ?d1 = "\<lparr>rows = [\<lparr>doc_id = 1, doc_type = Some (str ''record''), ident = None,
                         data = str ''{...}'', created_time = 0\<rparr>], seq = 1\<rparr>"
  have h: "\<not> dict_has [] (PStr (str ''student_name''))" "\<not> dict_has [] (PStr (str ''content''))"
    by (simp_all add: dict_has_def)
  have a: "add_document dumps_any (at_time 0) (init_database None) (PStr (str ''record''))
          (dict_get [] (PStr (str ''student_name'')) PNone) x = (?d1, True, Some 1)" for x
    by (simp add: add_document_def dumps_any_def at_time_def init_database_def dict_get_def
          str_def surrogate_def)
  from api_record_no_validation [where dumps = dumps_any and e = "at_time 0"
         and d = "init_database None" and kv = "[]"]
  obtain payload d' ok new_id where r:
    "add_document dumps_any (at_time 0) (init_database None) (PStr (str ''record''))
       (dict_get [] (PStr (str ''student_name'')) PNone) (PDict payload) = (d', ok, new_id)"
    "api_record dumps_any (at_time 0) (init_database None) (PDict []) =
         (d', Inr \<lparr>status = 200,
                   body = (if ok then envelope ''success'' msg_added
                           else envelope ''error'' msg_add_failed)\<rparr>)"
    "\<not> dict_has [] (PStr (str ''student_name''))
          \<longrightarrow> getitem (PDict payload) (PStr (str ''student_name'')) = Inr PNone"
    "\<not> dict_has [] (PStr (str ''content''))
          \<longrightarrow> getitem (PDict payload) (PStr (str ''content'')) = Inr PNone"
    by blast
  from r(1) a [of "PDict payload"] have o: "d' = ?d1" "ok" by simp_all
  from r(2) o have "api_record dumps_any (at_time 0) (init_database None) (PDict []) =
            (?d1, Inr \<lparr>status = 200, body = envelope ''success'' msg_added\<rparr>)"
    by simp
  moreover from r(3,4) h
  have "getitem (PDict payload) (PStr (str ''student_name'')) = Inr PNone"
    "getitem (PDict payload) (PStr (str ''content'')) = Inr PNone"
    by blast+
  ultimately have "\<exists>payload.
        add_document dumps_any (at_time 0) (init_database None) (PStr (str ''record''))
          (dict_get [] (PStr (str ''student_name'')) PNone) (PDict payload) = (?d1, True, Some 1)
        \<and> getitem (PDict payload) (PStr (str ''student_name'')) = Inr PNone
        \<and> getitem (PDict payload) (PStr (str ''content'')) = Inr PNone
        \<and> api_record dumps_any (at_time 0) (init_database None) (PDict []) =
            (?d1, Inr \<lparr>status = 200, body = envelope ''success'' msg_added\<rparr>)"
    using a [of "PDict payload"] by (intro exI [of _ payload] conjI) (assumption+)
  with h show ?thesis by (intro conjI)
qed

text \<open>
  C10 as stated fails on a JSON body that is no object: an array has no \<^verbatim>\<open>get\<close>, the
  exception leaves the view, nothing is inserted and Flask answers 500.
\<close>

theorem api_record_counterexample:
  "api_record dumps_empty (at_time 0) (init_database None) (PList []) =
     (init_database None, Inl AttributeError)
   \<and> http_status (snd (api_record dumps_empty (at_time 0) (init_database None) (PList []))) = 500"
  by (simp add: api_record_def http_status_def)

section \<open>Properties of the chat endpoint\<close>












section \<open>Properties of the query\<close>







lemma set_insert_desc [simp]: "set (insert_desc r xs) = insert r (set xs)"
  by (induction xs) auto

lemma set_order_by_desc [simp]: "set (order_by_desc xs) = set xs"
  by (induction xs) auto

lemma length_insert_desc [simp]: "length (insert_desc r xs) = Suc (length xs)"
  by (induction xs) auto

lemma length_order_by_desc [simp]: "length (order_by_desc xs) = length xs"
  by (induction xs) auto














section \<open>Insert, then query\<close>












section \<open>The data of an imported item\<close>

lemma set_dict_set: "set (dict_set d k v) \<subseteq> insert (k, v) (set d)"
  by (induction d) (auto split: if_splits)

lemma map_fst_dict_set:
  "map fst (dict_set d k v) = (if k \<in> set (map fst d) then map fst d else map fst d @ [k])"
  by (induction d) (auto split: if_splits)

lemma keys_dict_set: "fst ` set (dict_set d k v) = insert k (fst ` set d)"
proof -
  have "set (map fst (dict_set d k v)) = insert k (set (map fst d))"
    unfolding map_fst_dict_set by auto
  then show ?thesis by simp
qed

lemma set_fold_cells:
  "set (foldl (\<lambda>d (k, v). dict_set d (PStr k) (PStr v)) d0 kvs)
     \<subseteq> set d0 \<union> (\<lambda>(k, v). (PStr k, PStr v)) ` set kvs"
proof (induction kvs arbitrary: d0)
  case Nil
  show ?case by simp
next
  case (Cons kv kvs)
  obtain k v where kv: "kv = (k, v)" by (cases kv)
  have "set (foldl (\<lambda>d (k, v). dict_set d (PStr k) (PStr v)) (dict_set d0 (PStr k) (PStr v)) kvs)
     \<subseteq> set (dict_set d0 (PStr k) (PStr v)) \<union> (\<lambda>(k, v). (PStr k, PStr v)) ` set kvs"
    by (rule Cons.IH)
  also have "\<dots> \<subseteq> insert (PStr k, PStr v) (set d0) \<union> (\<lambda>(k, v). (PStr k, PStr v)) ` set kvs"
    using set_dict_set [of d0 "PStr k" "PStr v"] by auto
  finally show ?case by (auto simp: kv)
qed

lemma keys_fold_cells:
  "fst ` set (foldl (\<lambda>d (k, v). dict_set d (PStr k) (PStr v)) d0 kvs)
     = fst ` set d0 \<union> PStr ` fst ` set kvs"
proof (induction kvs arbitrary: d0)
  case Nil
  show ?case by simp
next
  case (Cons kv kvs)
  obtain k v where kv: "kv = (k, v)" by (cases kv)
  show ?case unfolding kv using Cons.IH [of "dict_set d0 (PStr k) (PStr v)"]
    by (simp add: keys_dict_set)
qed

lemma dict_row_rectangular:
  assumes "length row = length fieldnames"
  shows "set (dict_row fieldnames row) \<subseteq> (\<lambda>(k, v). (PStr k, PStr v)) ` set (zip fieldnames row)"
    and "fst ` set (dict_row fieldnames row) = PStr ` set fieldnames"
proof -
  have d: "dict_row fieldnames row =
             foldl (\<lambda>d (k, v). dict_set d (PStr k) (PStr v)) [] (zip fieldnames row)"
    using assms by (simp add: dict_row_def Let_def)
  show "set (dict_row fieldnames row) \<subseteq> (\<lambda>(k, v). (PStr k, PStr v)) ` set (zip fieldnames row)"
    unfolding d using set_fold_cells [of "[]" "zip fieldnames row"] by simp
  have "fst ` set (zip fieldnames row) = set fieldnames"
    using assms by (metis map_fst_zip set_map)
  then show "fst ` set (dict_row fieldnames row) = PStr ` set fieldnames"
    unfolding d by (simp add: keys_fold_cells)
qed

lemma import_items_step:
  assumes "\<not> (dict_has kv (PStr (str ''data'')) \<and> is_dict (dict_get kv (PStr (str ''data'')) PNone))"
  shows "\<exists>d1 ok n.
           import_items dumps E d (PDict kv # items) results succ fail =
             import_items dumps (\<lambda>i. E (Suc i)) d1 items
               (results @ [result_entry ''item'' (PDict kv) ok n])
               (if ok then succ + 1 else succ) (if ok then fail else fail + 1)
           \<and> (if ok then \<exists>r. rows d1 = rows d @ [r] \<and> dumps (PDict (data_fields kv)) = Some (data r)
               else d1 = d)"
proof -
  define dt where "dt = dict_get kv (PStr (str ''doc_type'')) PNone"
  define idf where "idf = dict_get kv (PStr (str ''identifier'')) PNone"
  obtain d1 ok n where add: "add_document dumps (E 0) d dt idf (PDict (data_fields kv)) = (d1, ok, n)"
    by (cases "add_document dumps (E 0) d dt idf (PDict (data_fields kv))") auto
  have step: "import_items dumps E d (PDict kv # items) results succ fail =
             import_items dumps (\<lambda>i. E (Suc i)) d1 items
               (results @ [result_entry ''item'' (PDict kv) ok n])
               (if ok then succ + 1 else succ) (if ok then fail else fail + 1)"
    using assms add by (auto simp: dt_def idf_def data_fields_def Let_def)
  have "if ok then \<exists>r. rows d1 = rows d @ [r] \<and> dumps (PDict (data_fields kv)) = Some (data r)
               else d1 = d"
    using add_document_cases [OF add] by (cases ok) auto
  with step show ?thesis by blast
qed

lemma import_rows_step:
  "\<exists>d1 ok n.
     import_rows dumps E d (row # rest) results succ fail =
       import_rows dumps (\<lambda>i. E (Suc i)) d1 rest
         (results @ [result_entry ''row'' (PDict row) ok n])
         (if ok then succ + 1 else succ) (if ok then fail else fail + 1)
     \<and> (if ok then \<exists>r. rows d1 = rows d @ [r] \<and> dumps (PDict (data_fields row)) = Some (data r)
         else d1 = d)"
proof -
  define dt where "dt = or_none (dict_get row (PStr (str ''doc_type'')) PNone)"
  define idf where "idf = or_none (dict_get row (PStr (str ''identifier'')) PNone)"
  obtain d1 ok n where add: "add_document dumps (E 0) d dt idf (PDict (data_fields row)) = (d1, ok, n)"
    by (cases "add_document dumps (E 0) d dt idf (PDict (data_fields row))") auto
  have step: "import_rows dumps E d (row # rest) results succ fail =
       import_rows dumps (\<lambda>i. E (Suc i)) d1 rest
         (results @ [result_entry ''row'' (PDict row) ok n])
         (if ok then succ + 1 else succ) (if ok then fail else fail + 1)"
    using add by (auto simp: dt_def idf_def data_fields_def Let_def)
  have "if ok then \<exists>r. rows d1 = rows d @ [r] \<and> dumps (PDict (data_fields row)) = Some (data r)
               else d1 = d"
    using add_document_cases [OF add] by (cases ok) auto
  with step show ?thesis by blast
qed

lemma data_fields_set:
  "set (data_fields kv) =
     {(k, v). (k, v) \<in> set kv \<and> k \<noteq> PStr (str ''doc_type'') \<and> k \<noteq> PStr (str ''identifier'')}"
  by (auto simp: data_fields_def reserved_def)

lemma data_fields_rectangular:
  assumes "length row = length fieldnames"
  shows "set (data_fields (dict_row fieldnames row))
           \<subseteq> {(PStr c, PStr cell) | c cell. (c, cell) \<in> set (zip fieldnames row)
                   \<and> c \<noteq> str ''doc_type'' \<and> c \<noteq> str ''identifier''}"
    and "fst ` set (data_fields (dict_row fieldnames row))
           = {PStr c | c. c \<in> set fieldnames \<and> c \<noteq> str ''doc_type'' \<and> c \<noteq> str ''identifier''}"
proof -
  show "set (data_fields (dict_row fieldnames row))
           \<subseteq> {(PStr c, PStr cell) | c cell. (c, cell) \<in> set (zip fieldnames row)
                   \<and> c \<noteq> str ''doc_type'' \<and> c \<noteq> str ''identifier''}"
    using dict_row_rectangular(1) [OF assms] by (auto simp: data_fields_set)
  have "fst ` set (data_fields (dict_row fieldnames row))
          = {k \<in> fst ` set (dict_row fieldnames row).
               k \<noteq> PStr (str ''doc_type'') \<and> k \<noteq> PStr (str ''identifier'')}"
    by (force simp: data_fields_set)
  then show "fst ` set (data_fields (dict_row fieldnames row))
           = {PStr c | c. c \<in> set fieldnames \<and> c \<noteq> str ''doc_type'' \<and> c \<noteq> str ''identifier''}"
    unfolding dict_row_rectangular(2) [OF assms] by auto
qed

text \<open>
  C9, as amended. In the loop over a JSON array, an item without a \<^verbatim>\<open>data\<close> member that
  is an object is inserted with the mapping of all its pairs except those under
  \<^verbatim>\<open>doc_type\<close> and \<^verbatim>\<open>identifier\<close>, and on success that mapping, serialised, is the data of
  the new row. The loop over the rows of a CSV file does the same with every row. For a
  line with as many cells as the header has columns, the fields of that mapping are the
  columns other than \<^verbatim>\<open>doc_type\<close> and \<^verbatim>\<open>identifier\<close>, each with a cell of the line under
  a column of that name, a string.
\<close>

theorem import_data_fields:
  "(\<not> (dict_has kv (PStr (str ''data'')) \<and> is_dict (dict_get kv (PStr (str ''data'')) PNone)) \<longrightarrow>
      (\<exists>d1 ok n.
         import_items dumps E d (PDict kv # items) results succ fail =
           import_items dumps (\<lambda>i. E (Suc i)) d1 items
             (results @ [result_entry ''item'' (PDict kv) ok n])
             (if ok then succ + 1 else succ) (if ok then fail else fail + 1)
         \<and> (if ok then \<exists>r. rows d1 = rows d @ [r] \<and> dumps (PDict (data_fields kv)) = Some (data r)
             else d1 = d)))
   \<and> (\<exists>d1 ok n.
         import_rows dumps E d (row # rest) results succ fail =
           import_rows dumps (\<lambda>i. E (Suc i)) d1 rest
             (results @ [result_entry ''row'' (PDict row) ok n])
             (if ok then succ + 1 else succ) (if ok then fail else fail + 1)
         \<and> (if ok then \<exists>r. rows d1 = rows d @ [r] \<and> dumps (PDict (data_fields row)) = Some (data r)
             else d1 = d))
   \<and> set (data_fields kv) =
       {(k, v). (k, v) \<in> set kv \<and> k \<noteq> PStr (str ''doc_type'') \<and> k \<noteq> PStr (str ''identifier'')}
   \<and> (length cells = length fieldnames \<longrightarrow>
        set (data_fields (dict_row fieldnames cells))
           \<subseteq> {(PStr c, PStr cell) | c cell. (c, cell) \<in> set (zip fieldnames cells)
                   \<and> c \<noteq> str ''doc_type'' \<and> c \<noteq> str ''identifier''}
        \<and> fst ` set (data_fields (dict_row fieldnames cells))
           = {PStr c | c. c \<in> set fieldnames \<and> c \<noteq> str ''doc_type'' \<and> c \<noteq> str ''identifier''})"
  using import_items_step [of kv dumps E d items results succ fail]
    import_rows_step [of dumps E d row rest results succ fail]
    data_fields_set [of kv]
    data_fields_rectangular [of cells fieldnames]
  by blast

theorem import_data_fields_witness:
  "\<not> (dict_has bob_item (PStr (str ''data'')) \<and> is_dict (dict_get bob_item (PStr (str ''data'')) PNone))
   \<and> length full_cells = length full_header
   \<and> (\<exists>d1 ok n.
         import_items dumps_any (\<lambda>i. at_time 0) (init_database None) [PDict bob_item] [] 0 0 =
           import_items dumps_any (\<lambda>i. at_time 0) d1 []
             ([] @ [result_entry ''item'' (PDict bob_item) ok n])
             (if ok then 0 + 1 else 0) (if ok then 0 else 0 + 1)
         \<and> (if ok then \<exists>r. rows d1 = rows (init_database None) @ [r]
                            \<and> dumps_any (PDict (data_fields bob_item)) = Some (data r)
             else d1 = init_database None))
   \<and> set (data_fields bob_item) =
       {(k, v). (k, v) \<in> set bob_item \<and> k \<noteq> PStr (str ''doc_type'') \<and> k \<noteq> PStr (str ''identifier'')}
   \<and> set (data_fields (dict_row full_header full_cells))
           \<subseteq> {(PStr c, PStr cell) | c cell. (c, cell) \<in> set (zip full_header full_cells)
                   \<and> c \<noteq> str ''doc_type'' \<and> c \<noteq> str ''identifier''}
   \<and> fst ` set (data_fields (dict_row full_header full_cells))
           = {PStr c | c. c \<in> set full_header \<and> c \<noteq> str ''doc_type'' \<and> c \<noteq> str ''identifier''}
   \<and> data_fields (dict_row full_header full_cells) = [(PStr (str ''name''), PStr (str ''Bob''))]"
proof -
  have h: "\<not> (dict_has bob_item (PStr (str ''data'')) \<and> is_dict (dict_get bob_item (PStr (str ''data'')) PNone))"
    by (simp add: dict_has_def bob_item_def str_def)
  have l: "length full_cells = length full_header"
    by (simp add: full_cells_def full_header_def)
  have v: "data_fields (dict_row full_header full_cells) = [(PStr (str ''name''), PStr (str ''Bob''))]"
    by (simp add: data_fields_def dict_row_def full_cells_def full_header_def reserved_def str_def)
  from import_data_fields [of bob_item dumps_any "\<lambda>i. at_time 0" "init_database None" "[]" "[]" 0 0
         "[]" "[]" full_cells full_header] h l v
  show ?thesis by blast
qed

text \<open>
  C9 as stated fails on a CSV line shorter than the header: \<^verbatim>\<open>csv.DictReader\<close> fills the
  missing cell with \<^verbatim>\<open>None\<close>, and the stored data holds \<^verbatim>\<open>null\<close> for that column, not a
  string.
\<close>

theorem import_csv_short_row_counterexample:
  "data_fields (dict_row short_header short_cells) =
     [(PStr (str ''name''), PStr (str ''Bob'')), (PStr (str ''age''), PNone)]
   \<and> map data (rows (fst (api_import dumps_bob (\<lambda>i. at_time 0) (init_database None)
                             (FormBody (Some (Records [short_header, short_cells]))))))
       = [bob_text]"
proof -
  have r: "dict_row short_header short_cells =
             [(PStr (str ''doc_type''), PStr (str ''student'')),
              (PStr (str ''name''), PStr (str ''Bob'')), (PStr (str ''age''), PNone)]"
    by (simp add: dict_row_def short_header_def short_cells_def str_def)
  have a: "data_fields (dict_row short_header short_cells) =
     [(PStr (str ''name''), PStr (str ''Bob'')), (PStr (str ''age''), PNone)]"
    unfolding r by (simp add: data_fields_def reserved_def str_def)
  have c: "csv_reader [short_header, short_cells] None = ([short_header, short_cells], None)"
    by (simp add: short_header_def short_cells_def field_limit_def str_def)
  have i: "import_csv dumps_bob E d [short_header, short_cells] None =
             (case import_rows dumps_bob E d (dict_reader [short_header, short_cells]) [] 0 0 of
                (d', results, succ, fail) \<Rightarrow>
                  if list_ex mixed_keys (dict_reader [short_header, short_cells])
                  then (d', \<lparr>status = 500, body = envelope ''error'' unsortable\<rparr>)
                  else (d', summary results succ fail))" for E d
    unfolding import_csv_def c by simp
  have "dict_reader [short_header, short_cells] = [dict_row short_header short_cells]"
    by (simp add: dict_reader_def short_cells_def)
  then have "map data (rows (fst (api_import dumps_bob (\<lambda>i. at_time 0) (init_database None)
                             (FormBody (Some (Records [short_header, short_cells]))))))
       = [bob_text]"
    using a unfolding r
    by (simp add: api_import_def i mixed_keys_def data_fields_def dict_get_def
          or_none_def add_document_def dumps_bob_def at_time_def init_database_def bob_text_def surrogate_def str_def
          split: prod.splits)
  with a show ?thesis by blast
qed

end
